theory Spec2Isabelle
  imports Main "HOL-Library.State_Monad"
begin

section \<open>The bundler configuration of \<^verbatim>\<open>webpack.config.js\<close>\<close>

text \<open>
  The configuration module is one object literal whose fields branch on the constant
  \<^verbatim>\<open>isProduction\<close>. It reads two things from outside: the variable
  \<^verbatim>\<open>NODE_ENV\<close> of the process environment and the directory of the module
  (\<^verbatim>\<open>__dirname\<close>). Both are parameters of the model; every other value is a
  literal of the source.
\<close>

subsection \<open>Values of the configuration\<close>

text \<open>A regular-expression literal \<^verbatim>\<open>/source/flags\<close>.\<close>

datatype regexp = RegExp string string

text \<open>The backslash of the patterns, written by its code.\<close>

definition bsl :: char where
  "bsl = CHR 0x5C"

text \<open>
  A loader is named by a string, except the loader exported by the stylesheet-extraction
  plugin (\<^verbatim>\<open>MiniCssExtractPlugin.loader\<close>), which the source takes from the plugin.
\<close>

datatype loader = Loader string | MiniCssExtractPlugin_loader

text \<open>
  The records below keep the field names of the source, except where the name is taken:
  \<^verbatim>\<open>output.path\<close> is \<open>output_path\<close>, \<^verbatim>\<open>type\<close> is \<open>rule_type\<close>,
  \<^verbatim>\<open>generator.filename\<close> is \<open>generator_filename\<close>, \<^verbatim>\<open>devServer.open\<close> is
  \<open>open_browser\<close> and \<^verbatim>\<open>module\<close> is \<open>module_opts\<close>.
\<close>

text \<open>The \<^verbatim>\<open>use\<close> field of a rule: absent, one loader, or an array of loaders.\<close>

datatype rule_use = NoUse | UseLoader loader | UseLoaders "loader list"

record generator_options =
  generator_filename :: string

record module_rule =
  test :: regexp
  use :: rule_use
  exclude :: "regexp option"
  rule_type :: "string option"
  generator :: "generator_options option"

record output_options =
  output_path :: string
  filename :: string
  assetModuleFilename :: string
  clean :: bool

record resolve_options =
  extensions :: "string list"

text \<open>\<^verbatim>\<open>devtool\<close> is either the value \<^verbatim>\<open>false\<close> or the name of a source-map style.\<close>

datatype devtool_option = DevtoolFalse | Devtool string

record devServer_options =
  static :: string
  historyApiFallback :: bool
  port :: nat
  open_browser :: bool
  hot :: bool

record minify_options =
  removeComments :: bool
  collapseWhitespace :: bool
  removeRedundantAttributes :: bool

text \<open>
  The plugin instances the source constructs, each with the options it is given:
  the template and the \<^verbatim>\<open>minify\<close> option (\<^verbatim>\<open>false\<close> is \<open>None\<close>), the
  filename template of the extracted stylesheets, and \<^verbatim>\<open>extractComments\<close>.
\<close>

datatype plugin =
    HtmlWebpackPlugin string "minify_options option"
  | MiniCssExtractPlugin string
  | TerserPlugin bool
  | CssMinimizerPlugin

record splitChunks_options =
  chunks :: string

record optimization_options =
  minimize :: bool
  minimizer :: "plugin list"
  splitChunks :: splitChunks_options

record module_options =
  rules :: "module_rule list"

record webpack_config =
  entry :: string
  "output" :: output_options
  resolve :: resolve_options
  devtool :: devtool_option
  devServer :: devServer_options
  module_opts :: module_options
  optimization :: optimization_options
  plugins :: "plugin list"
  mode :: string

subsection \<open>The environment\<close>

type_synonym process_env = "string \<rightharpoonup> string"

text \<open>
  \<^verbatim>\<open>const isProduction = process.env.NODE_ENV === "production"\<close>: strict equality, so
  an unset variable gives \<^verbatim>\<open>false\<close>.
\<close>

definition isProduction :: "process_env \<Rightarrow> bool" where
  "isProduction env = (env ''NODE_ENV'' = Some ''production'')"

text \<open>
  \<^verbatim>\<open>path.resolve(__dirname, name)\<close> on a POSIX host, for the directory of a
  module (an absolute, normalised path, which ends in a separator only when it is the
  root) and a plain relative name. On a Windows host the separator is the backslash; no
  property below depends on the separator.
\<close>

definition path_resolve :: "string \<Rightarrow> string \<Rightarrow> string" where
  "path_resolve dir name = (if dir = ''/'' then dir @ name else dir @ ''/'' @ name)"

subsection \<open>The exported object\<close>

text \<open>The object literal of \<^verbatim>\<open>module.exports\<close>, for a given value of the flag.\<close>

definition exports_for :: "string \<Rightarrow> bool \<Rightarrow> webpack_config" where
  "exports_for dirname isProd =
    \<lparr> entry = ''./src/index.tsx'',
      output = \<lparr>
        output_path = path_resolve dirname ''dist'',
        filename = (if isProd then ''js/[name].[contenthash].js'' else ''js/[name].bundle.js''),
        assetModuleFilename = ''assets/[hash][ext][query]'',
        clean = True \<rparr>,
      resolve = \<lparr> extensions = [''.tsx'', ''.ts'', ''.js''] \<rparr>,
      devtool = (if isProd then DevtoolFalse else Devtool ''source-map''),
      devServer = \<lparr>
        static = path_resolve dirname ''public'',
        historyApiFallback = True,
        port = 3000,
        open_browser = True,
        hot = True \<rparr>,
      module_opts = \<lparr> rules = [
        \<lparr> test = RegExp (bsl # ''.tsx?$'') '''',
          use = UseLoader (Loader ''ts-loader''),
          exclude = Some (RegExp ''node_modules'' ''''),
          rule_type = None,
          generator = None \<rparr>,
        \<lparr> test = RegExp (bsl # ''.scss$'') '''',
          use = UseLoaders [
            (if isProd then MiniCssExtractPlugin_loader else Loader ''style-loader''),
            Loader ''css-loader'',
            Loader ''sass-loader''],
          exclude = None,
          rule_type = None,
          generator = None \<rparr>,
        \<lparr> test = RegExp (bsl # ''.(png|jpe?g|gif|svg)$'') ''i'',
          use = NoUse,
          exclude = None,
          rule_type = Some ''asset/resource'',
          generator = Some \<lparr> generator_filename = ''images/[name].[hash][ext]'' \<rparr> \<rparr>,
        \<lparr> test = RegExp (bsl # ''.(woff|woff2|eot|ttf|otf)$'') ''i'',
          use = NoUse,
          exclude = None,
          rule_type = Some ''asset/resource'',
          generator = Some \<lparr> generator_filename = ''fonts/[name].[hash][ext]'' \<rparr> \<rparr>] \<rparr>,
      optimization = \<lparr>
        minimize = isProd,
        minimizer = [TerserPlugin False, CssMinimizerPlugin],
        splitChunks = \<lparr> chunks = ''all'' \<rparr> \<rparr>,
      plugins =
        [HtmlWebpackPlugin ''./public/index.html''
           (if isProd
            then Some \<lparr> removeComments = True, collapseWhitespace = True,
                        removeRedundantAttributes = True \<rparr>
            else None)]
        @ (if isProd then [MiniCssExtractPlugin ''css/[name].[contenthash].css''] else []),
      mode = (if isProd then ''production'' else ''development'') \<rparr>"

text \<open>The module as the build tool loads it: the flag comes from the environment.\<close>

definition module_exports :: "string \<Rightarrow> process_env \<Rightarrow> webpack_config" where
  "module_exports dirname env = exports_for dirname (isProduction env)"

subsection \<open>Evaluating the module\<close>

text \<open>
  What the module does to the process that loads it, in the order of the source: the
  five \<^verbatim>\<open>require\<close> calls of lines 1 to 5, the read of
  \<^verbatim>\<open>process.env.NODE_ENV\<close> of line 7, the two reads of \<^verbatim>\<open>__dirname\<close> and the
  \<^verbatim>\<open>new\<close> expressions inside the object literal. The source has no assignment
  other than the one to \<^verbatim>\<open>module.exports\<close>, which is the value returned here.
\<close>

datatype effect =
    Require string
  | ReadEnv string
  | ReadDirname
  | New plugin

text \<open>
  The process as the module sees it: its environment, the directory of the module, and
  the journal of the operations performed so far.
\<close>

record node_process =
  env :: process_env
  dirname :: string
  journal :: "effect list"

definition perform :: "effect \<Rightarrow> (node_process, unit) state" where
  "perform e = State_Monad.update (\<lambda>s. s\<lparr> journal := journal s @ [e] \<rparr>)"

definition require :: "string \<Rightarrow> (node_process, unit) state" where
  "require m = perform (Require m)"

definition process_env_get :: "string \<Rightarrow> (node_process, string option) state" where
  "process_env_get k = do {
     perform (ReadEnv k);
     s \<leftarrow> State_Monad.get;
     State_Monad.return (env s k)
   }"

definition get_dirname :: "(node_process, string) state" where
  "get_dirname = do {
     perform ReadDirname;
     s \<leftarrow> State_Monad.get;
     State_Monad.return (dirname s)
   }"

definition new :: "plugin \<Rightarrow> (node_process, plugin) state" where
  "new p = do { perform (New p); State_Monad.return p }"

text \<open>
  The whole of \<^verbatim>\<open>webpack.config.js\<close> as a program on the process: the statements
  of lines 1 to 7, then the object literal of lines 9 to 87 with its subexpressions
  evaluated in the order they are written.
\<close>

definition load_config :: "(node_process, webpack_config) state" where
  "load_config = do {
     require ''path'';
     require ''html-webpack-plugin'';
     require ''mini-css-extract-plugin'';
     require ''terser-webpack-plugin'';
     require ''css-minimizer-webpack-plugin'';
     node_env \<leftarrow> process_env_get ''NODE_ENV'';
     let isProd = (node_env = Some ''production'');
     output_dir \<leftarrow> get_dirname;
     static_dir \<leftarrow> get_dirname;
     terser \<leftarrow> new (TerserPlugin False);
     cssMinimizer \<leftarrow> new CssMinimizerPlugin;
     html \<leftarrow> new (HtmlWebpackPlugin ''./public/index.html''
       (if isProd
        then Some \<lparr> removeComments = True, collapseWhitespace = True,
                    removeRedundantAttributes = True \<rparr>
        else None));
     extract \<leftarrow>
       (if isProd
        then do {
          p \<leftarrow> new (MiniCssExtractPlugin ''css/[name].[contenthash].css'');
          State_Monad.return [p]
        }
        else State_Monad.return []);
     State_Monad.return
       \<lparr> entry = ''./src/index.tsx'',
         output = \<lparr>
           output_path = path_resolve output_dir ''dist'',
           filename =
             (if isProd then ''js/[name].[contenthash].js'' else ''js/[name].bundle.js''),
           assetModuleFilename = ''assets/[hash][ext][query]'',
           clean = True \<rparr>,
         resolve = \<lparr> extensions = [''.tsx'', ''.ts'', ''.js''] \<rparr>,
         devtool = (if isProd then DevtoolFalse else Devtool ''source-map''),
         devServer = \<lparr>
           static = path_resolve static_dir ''public'',
           historyApiFallback = True,
           port = 3000,
           open_browser = True,
           hot = True \<rparr>,
         module_opts = \<lparr> rules = [
           \<lparr> test = RegExp (bsl # ''.tsx?$'') '''',
             use = UseLoader (Loader ''ts-loader''),
             exclude = Some (RegExp ''node_modules'' ''''),
             rule_type = None,
             generator = None \<rparr>,
           \<lparr> test = RegExp (bsl # ''.scss$'') '''',
             use = UseLoaders [
               (if isProd then MiniCssExtractPlugin_loader else Loader ''style-loader''),
               Loader ''css-loader'',
               Loader ''sass-loader''],
             exclude = None,
             rule_type = None,
             generator = None \<rparr>,
           \<lparr> test = RegExp (bsl # ''.(png|jpe?g|gif|svg)$'') ''i'',
             use = NoUse,
             exclude = None,
             rule_type = Some ''asset/resource'',
             generator = Some \<lparr> generator_filename = ''images/[name].[hash][ext]'' \<rparr> \<rparr>,
           \<lparr> test = RegExp (bsl # ''.(woff|woff2|eot|ttf|otf)$'') ''i'',
             use = NoUse,
             exclude = None,
             rule_type = Some ''asset/resource'',
             generator = Some \<lparr> generator_filename = ''fonts/[name].[hash][ext]'' \<rparr> \<rparr>] \<rparr>,
         optimization = \<lparr>
           minimize = isProd,
           minimizer = [terser, cssMinimizer],
           splitChunks = \<lparr> chunks = ''all'' \<rparr> \<rparr>,
         plugins = html # extract,
         mode = (if isProd then ''production'' else ''development'') \<rparr>
   }"

text \<open>The entries of a journal by kind.\<close>

fun required_modules :: "effect list \<Rightarrow> string list" where
  "required_modules [] = []"
| "required_modules (Require m # es) = m # required_modules es"
| "required_modules (e # es) = required_modules es"

fun env_reads :: "effect list \<Rightarrow> string list" where
  "env_reads [] = []"
| "env_reads (ReadEnv k # es) = k # env_reads es"
| "env_reads (e # es) = env_reads es"

fun constructed :: "effect list \<Rightarrow> plugin list" where
  "constructed [] = []"
| "constructed (New p # es) = p # constructed es"
| "constructed (e # es) = constructed es"

subsection \<open>Reading the configuration\<close>

text \<open>\<open>startsWith p s\<close>: the string \<open>s\<close> begins with \<open>p\<close>.\<close>

fun startsWith :: "string \<Rightarrow> string \<Rightarrow> bool" where
  "startsWith [] s = True"
| "startsWith (p # ps) [] = False"
| "startsWith (p # ps) (c # cs) = (p = c \<and> startsWith ps cs)"

text \<open>
  The characters of a placeholder argument: the bundler's template pattern takes a
  \<^verbatim>\<open>\w\<close> run (letters, digits, underscore) after the colon.
\<close>

definition is_word_char :: "char \<Rightarrow> bool" where
  "is_word_char c =
    (c \<in> set ''abcdefghijklmnopqrstuvwxyzABCDEFGHIJKLMNOPQRSTUVWXYZ0123456789_'')"

text \<open>\<open>word_close s\<close>: \<open>s\<close> is a run of word characters, possibly empty, then \<^verbatim>\<open>]\<close>.\<close>

fun word_close :: "string \<Rightarrow> bool" where
  "word_close [] = False"
| "word_close (c # cs) = (c = CHR '']'' \<or> (is_word_char c \<and> word_close cs))"

text \<open>
  What may follow the name of a placeholder: the closing bracket, or a colon, a
  non-empty argument and the closing bracket.
\<close>

fun closes_placeholder :: "string \<Rightarrow> bool" where
  "closes_placeholder [] = False"
| "closes_placeholder (c # cs) =
    (c = CHR '']'' \<or> (c = CHR '':'' \<and> (case cs of [] \<Rightarrow> False
                                              | x # xs \<Rightarrow> is_word_char x \<and> word_close xs)))"

text \<open>
  \<open>placeholder_here n s\<close>: \<open>s\<close> begins with the placeholder named \<open>n\<close>, that is
  \<^verbatim>\<open>[n]\<close> or \<^verbatim>\<open>[n:arg]\<close>.
\<close>

definition placeholder_here :: "string \<Rightarrow> string \<Rightarrow> bool" where
  "placeholder_here n s =
    (startsWith (CHR ''['' # n) s \<and> closes_placeholder (drop (Suc (length n)) s))"

text \<open>\<open>has_placeholder n s\<close>: the placeholder named \<open>n\<close> occurs somewhere in \<open>s\<close>.\<close>

fun has_placeholder :: "string \<Rightarrow> string \<Rightarrow> bool" where
  "has_placeholder n [] = False"
| "has_placeholder n (c # cs) = (placeholder_here n (c # cs) \<or> has_placeholder n cs)"

text \<open>
  A filename template carries a fingerprint when it holds one of the bundler's hash
  placeholders: \<^verbatim>\<open>[hash]\<close>, \<^verbatim>\<open>[contenthash]\<close>, \<^verbatim>\<open>[chunkhash]\<close>,
  \<^verbatim>\<open>[fullhash]\<close> or \<^verbatim>\<open>[modulehash]\<close>, each also with a length as in
  \<^verbatim>\<open>[hash:8]\<close>. A bracket that only begins like one, as in
  \<^verbatim>\<open>[hashbrown]\<close>, is not a placeholder.
\<close>

definition has_fingerprint :: "string \<Rightarrow> bool" where
  "has_fingerprint t =
    (has_placeholder ''hash'' t \<or> has_placeholder ''contenthash'' t
      \<or> has_placeholder ''chunkhash'' t \<or> has_placeholder ''fullhash'' t
      \<or> has_placeholder ''modulehash'' t)"

text \<open>The loaders a rule applies, in the order the source lists them.\<close>

fun loaders_of :: "rule_use \<Rightarrow> loader list" where
  "loaders_of NoUse = []"
| "loaders_of (UseLoader l) = [l]"
| "loaders_of (UseLoaders ls) = ls"

text \<open>The stylesheet rule is the second entry of \<^verbatim>\<open>module.rules\<close>.\<close>

definition stylesheet_rule :: "webpack_config \<Rightarrow> module_rule" where
  "stylesheet_rule c = rules (module_opts c) ! 1"

text \<open>The filename templates of the rules that have a \<^verbatim>\<open>generator\<close>.\<close>

fun generator_filenames :: "module_rule list \<Rightarrow> string list" where
  "generator_filenames [] = []"
| "generator_filenames (r # rs) =
    (case generator r of
       None \<Rightarrow> generator_filenames rs
     | Some g \<Rightarrow> generator_filename g # generator_filenames rs)"

fun is_MiniCssExtractPlugin :: "plugin \<Rightarrow> bool" where
  "is_MiniCssExtractPlugin (MiniCssExtractPlugin f) = True"
| "is_MiniCssExtractPlugin (HtmlWebpackPlugin t m) = False"
| "is_MiniCssExtractPlugin (TerserPlugin e) = False"
| "is_MiniCssExtractPlugin CssMinimizerPlugin = False"

fun is_HtmlWebpackPlugin :: "plugin \<Rightarrow> bool" where
  "is_HtmlWebpackPlugin (HtmlWebpackPlugin t m) = True"
| "is_HtmlWebpackPlugin (MiniCssExtractPlugin f) = False"
| "is_HtmlWebpackPlugin (TerserPlugin e) = False"
| "is_HtmlWebpackPlugin CssMinimizerPlugin = False"

section \<open>Properties\<close>

subsection \<open>The placeholder test\<close>

lemma startsWith_iff: "startsWith p s = (\<exists>b. s = p @ b)"
  by (induction p s rule: startsWith.induct) auto

text \<open>
  The placeholder test against its reading: the text \<^verbatim>\<open>[n\<close>, then either
  \<^verbatim>\<open>]\<close> or a colon, a non-empty run of word characters and \<^verbatim>\<open>]\<close>.
\<close>

lemma word_close_iff:
  "word_close s = (\<exists>w b. s = w @ CHR '']'' # b \<and> list_all is_word_char w)"
proof (induction s)
  case Nil
  then show ?case by simp
next
  case (Cons c cs)
  show ?case
  proof
    assume "word_close (c # cs)"
    then consider "c = CHR '']''" | "is_word_char c" "word_close cs" by auto
    then show "\<exists>w b. c # cs = w @ CHR '']'' # b \<and> list_all is_word_char w"
    proof cases
      case 1
      then have "c # cs = [] @ CHR '']'' # cs \<and> list_all is_word_char []" by simp
      then show ?thesis by blast
    next
      case 2
      then obtain w b where "cs = w @ CHR '']'' # b" "list_all is_word_char w"
        using Cons.IH by auto
      with 2 have "c # cs = (c # w) @ CHR '']'' # b \<and> list_all is_word_char (c # w)"
        by simp
      then show ?thesis by blast
    qed
  next
    assume "\<exists>w b. c # cs = w @ CHR '']'' # b \<and> list_all is_word_char w"
    then obtain w b where wb: "c # cs = w @ CHR '']'' # b" "list_all is_word_char w"
      by blast
    show "word_close (c # cs)"
    proof (cases w)
      case Nil
      with wb show ?thesis by simp
    next
      case (Cons x xs)
      with wb have "c = x" "cs = xs @ CHR '']'' # b" "is_word_char x"
        "list_all is_word_char xs"
        by simp_all
      then show ?thesis using Cons.IH by auto
    qed
  qed
qed

lemma closes_placeholder_iff:
  "closes_placeholder s =
    ((\<exists>b. s = CHR '']'' # b)
     \<or> (\<exists>w b. w \<noteq> [] \<and> list_all is_word_char w \<and> s = CHR '':'' # w @ CHR '']'' # b))"
proof (cases s)
  case Nil
  then show ?thesis by simp
next
  case outer: (Cons c cs)
  show ?thesis
  proof (cases cs)
    case Nil
    with outer show ?thesis by auto
  next
    case (Cons x xs)
    have "(is_word_char x \<and> word_close xs) =
      (\<exists>w b. w \<noteq> [] \<and> list_all is_word_char w \<and> x # xs = w @ CHR '']'' # b)"
    proof
      assume "is_word_char x \<and> word_close xs"
      then obtain w b where "xs = w @ CHR '']'' # b" "list_all is_word_char w"
        "is_word_char x"
        by (auto simp: word_close_iff)
      then have "x # w \<noteq> [] \<and> list_all is_word_char (x # w)
          \<and> x # xs = (x # w) @ CHR '']'' # b"
        by simp
      then show "\<exists>w b. w \<noteq> [] \<and> list_all is_word_char w \<and> x # xs = w @ CHR '']'' # b"
        by blast
    next
      assume "\<exists>w b. w \<noteq> [] \<and> list_all is_word_char w \<and> x # xs = w @ CHR '']'' # b"
      then obtain w b where w: "w \<noteq> []" "list_all is_word_char w"
        "x # xs = w @ CHR '']'' # b"
        by blast
      then obtain y ys where "w = y # ys" by (cases w) auto
      with w have "is_word_char x" "xs = ys @ CHR '']'' # b" "list_all is_word_char ys"
        by simp_all
      then show "is_word_char x \<and> word_close xs" by (auto simp: word_close_iff)
    qed
    with Cons outer show ?thesis by auto
  qed
qed

lemma placeholder_here_iff:
  "placeholder_here n s = (\<exists>r. s = CHR ''['' # n @ r \<and> closes_placeholder r)"
  by (auto simp: placeholder_here_def startsWith_iff)

lemma has_placeholder_iff:
  "has_placeholder n s = (\<exists>a r. s = a @ CHR ''['' # n @ r \<and> closes_placeholder r)"
proof (induction s)
  case Nil
  then show ?case by simp
next
  case (Cons c cs)
  show ?case
  proof
    assume "has_placeholder n (c # cs)"
    then consider "placeholder_here n (c # cs)" | "has_placeholder n cs" by auto
    then show "\<exists>a r. c # cs = a @ CHR ''['' # n @ r \<and> closes_placeholder r"
    proof cases
      case 1
      then obtain r where "c # cs = [] @ CHR ''['' # n @ r \<and> closes_placeholder r"
        by (auto simp: placeholder_here_iff)
      then show ?thesis by blast
    next
      case 2
      then obtain a r where "cs = a @ CHR ''['' # n @ r" "closes_placeholder r"
        using Cons.IH by auto
      then have "c # cs = (c # a) @ CHR ''['' # n @ r \<and> closes_placeholder r" by simp
      then show ?thesis by blast
    qed
  next
    assume "\<exists>a r. c # cs = a @ CHR ''['' # n @ r \<and> closes_placeholder r"
    then obtain a r where ar: "c # cs = a @ CHR ''['' # n @ r" "closes_placeholder r"
      by blast
    show "has_placeholder n (c # cs)"
    proof (cases a)
      case Nil
      with ar have "placeholder_here n (c # cs)" by (auto simp: placeholder_here_iff)
      then show ?thesis by simp
    next
      case (Cons x xs)
      with ar have "cs = xs @ CHR ''['' # n @ r" by simp
      with ar have "has_placeholder n cs" using Cons.IH by blast
      then show ?thesis by simp
    qed
  qed
qed

text \<open>A bracket that only begins like a hash placeholder does not count; a length does.\<close>

lemma longer_name_is_no_fingerprint: "\<not> has_fingerprint ''assets/[hashbrown][ext]''"
  by (simp add: has_fingerprint_def placeholder_here_def is_word_char_def)

lemma unclosed_is_no_fingerprint: "\<not> has_fingerprint ''assets/[hash[ext]''"
  by (simp add: has_fingerprint_def placeholder_here_def is_word_char_def)

lemma empty_length_is_no_fingerprint: "\<not> has_fingerprint ''assets/[hash:][ext]''"
  by (simp add: has_fingerprint_def placeholder_here_def is_word_char_def)

lemma hash_with_length_is_fingerprint: "has_fingerprint ''assets/[hash:8][ext]''"
  by (simp add: has_fingerprint_def placeholder_here_def is_word_char_def)

text \<open>Both build modes are reachable from the environment.\<close>

lemma isProduction_set: "isProduction [''NODE_ENV'' \<mapsto> ''production'']"
  by (simp add: isProduction_def)

lemma isProduction_unset: "\<not> isProduction Map.empty"
  by (simp add: isProduction_def)

lemma isProduction_other: "\<not> isProduction [''NODE_ENV'' \<mapsto> ''development'']"
  by (simp add: isProduction_def)

subsection \<open>Optimization\<close>

text \<open>
  C1, as the specification states it, fails in development: there the minimizer chain
  still holds its two entries although \<open>minimize\<close> is false, so the chain is not empty
  and "populated if and only if minimize" does not hold.
\<close>

theorem minimizer_populated_in_development:
  "\<not> ((minimizer (optimization (exports_for ''/app'' False)) \<noteq> [])
        = minimize (optimization (exports_for ''/app'' False)))
   \<and> minimize (optimization (exports_for ''/app'' False)) = False
   \<and> minimizer (optimization (exports_for ''/app'' False)) \<noteq> []
   \<and> length (minimizer (optimization (exports_for ''/app'' False))) = 2"
  by (simp add: exports_for_def)

text \<open>
  C1, amended: in every build mode the minimizer chain has exactly two entries, the
  script minimizer and then the stylesheet minimizer; it is the same list in
  development and in production, so in development it is populated although
  \<open>minimize\<close> is false. Of the optimization options only the \<open>minimize\<close> flag
  differs between the modes: it is true in production and false in development.
\<close>

theorem minimizer_chain_fixed:
  "optimization (exports_for d p)
     = \<lparr> minimize = p,
         minimizer = [TerserPlugin False, CssMinimizerPlugin],
         splitChunks = \<lparr> chunks = ''all'' \<rparr> \<rparr>
   \<and> minimizer (optimization (exports_for d p)) = [TerserPlugin False, CssMinimizerPlugin]
   \<and> length (minimizer (optimization (exports_for d p))) = 2
   \<and> minimizer (optimization (exports_for d True))
     = minimizer (optimization (exports_for d False))
   \<and> minimize (optimization (exports_for d False)) = False
   \<and> minimize (optimization (exports_for d True)) = True
   \<and> optimization (exports_for d True)
     = (optimization (exports_for d False)) \<lparr> minimize := True \<rparr>"
  by (simp add: exports_for_def)

text \<open>
  C5: the \<open>minimize\<close> flag equals the production flag: true in production, false in
  development.
\<close>

theorem minimize_is_production:
  "minimize (optimization (exports_for d p)) = p
   \<and> minimize (optimization (exports_for d True)) = True
   \<and> minimize (optimization (exports_for d False)) = False"
  by (simp add: exports_for_def)

subsection \<open>Plugins\<close>

text \<open>
  C2: the stylesheet-extraction plugin is in the plugin list exactly in production.
  In production the list has length 2, the markup-template plugin and then the
  stylesheet-extraction plugin; in development it has length 1, the markup-template
  plugin alone.
\<close>

theorem plugins_by_mode:
  "(\<exists>f. MiniCssExtractPlugin f \<in> set (plugins (exports_for d p))) = p
   \<and> map is_MiniCssExtractPlugin (plugins (exports_for d True)) = [False, True]
   \<and> map is_HtmlWebpackPlugin (plugins (exports_for d True)) = [True, False]
   \<and> length (plugins (exports_for d True)) = 2
   \<and> map is_HtmlWebpackPlugin (plugins (exports_for d False)) = [True]
   \<and> length (plugins (exports_for d False)) = 1"
  by (cases p) (simp_all add: exports_for_def)

subsection \<open>Output names and source maps\<close>

text \<open>
  C3: the bundle filename template holds a fingerprint placeholder exactly in
  production; the development template is the stable \<^verbatim>\<open>js/[name].bundle.js\<close>.
\<close>

theorem bundle_fingerprint_iff_production:
  "has_fingerprint (filename (output (exports_for d p))) = p
   \<and> filename (output (exports_for d True)) = ''js/[name].[contenthash].js''
   \<and> filename (output (exports_for d False)) = ''js/[name].bundle.js''"
  by (cases p) (simp_all add: exports_for_def has_fingerprint_def placeholder_here_def)

text \<open>
  C4: source maps are generated exactly in development: \<open>devtool\<close> is \<^verbatim>\<open>false\<close>
  in production and the \<^verbatim>\<open>source-map\<close> option in development.
\<close>

theorem devtool_by_mode:
  "(devtool (exports_for d p) \<noteq> DevtoolFalse) = (\<not> p)
   \<and> devtool (exports_for d True) = DevtoolFalse
   \<and> devtool (exports_for d False) = Devtool ''source-map''"
  by (cases p) (simp_all add: exports_for_def)

text \<open>
  C10: in every build mode the asset filename template of the output
  (\<^verbatim>\<open>assets/[hash][ext][query]\<close>) and the filename templates of the image rule
  and of the font rule hold a hash placeholder; in development the bundle filename is
  the only template without one.
\<close>

theorem asset_names_fingerprinted:
  "assetModuleFilename (output (exports_for d p)) = ''assets/[hash][ext][query]''
   \<and> has_fingerprint (assetModuleFilename (output (exports_for d p)))
   \<and> generator_filenames (rules (module_opts (exports_for d p)))
     = [''images/[name].[hash][ext]'', ''fonts/[name].[hash][ext]'']
   \<and> map has_fingerprint (generator_filenames (rules (module_opts (exports_for d p))))
     = [True, True]
   \<and> has_fingerprint (filename (output (exports_for d False))) = False"
  by (simp add: exports_for_def has_fingerprint_def placeholder_here_def)

subsection \<open>Loader rules\<close>

text \<open>
  C6: the stylesheet rule applies three loaders. The first is the extraction loader
  exactly in production and the style-injection loader exactly in development; the
  other two, CSS resolution and Sass compilation, do not depend on the mode.
\<close>

theorem stylesheet_chain_by_mode:
  "test (stylesheet_rule (exports_for d p)) = RegExp (bsl # ''.scss$'') ''''
   \<and> length (loaders_of (use (stylesheet_rule (exports_for d p)))) = 3
   \<and> (hd (loaders_of (use (stylesheet_rule (exports_for d p)))) = MiniCssExtractPlugin_loader) = p
   \<and> (hd (loaders_of (use (stylesheet_rule (exports_for d p)))) = Loader ''style-loader'') = (\<not> p)
   \<and> tl (loaders_of (use (stylesheet_rule (exports_for d p))))
     = [Loader ''css-loader'', Loader ''sass-loader'']"
  by (cases p) (simp_all add: exports_for_def stylesheet_rule_def)

text \<open>
  C7: in every build mode the rule list has the same four rules, told apart by their
  file patterns: scripts, stylesheets, raster images and fonts, in this order.
\<close>

theorem rule_catalogue_fixed:
  "map test (rules (module_opts (exports_for d p)))
     = [RegExp (bsl # ''.tsx?$'') '''',
        RegExp (bsl # ''.scss$'') '''',
        RegExp (bsl # ''.(png|jpe?g|gif|svg)$'') ''i'',
        RegExp (bsl # ''.(woff|woff2|eot|ttf|otf)$'') ''i'']
   \<and> length (rules (module_opts (exports_for d p))) = 4
   \<and> distinct (map test (rules (module_opts (exports_for d p))))
   \<and> map test (rules (module_opts (exports_for d True)))
     = map test (rules (module_opts (exports_for d False)))"
  by (simp add: exports_for_def bsl_def)

subsection \<open>Development server\<close>

text \<open>
  C8: the development-server options (served directory, port, opening the browser, hot
  reload, history fallback) are the same in both build modes, and the history fallback
  is always on.
\<close>

theorem devServer_fixed:
  "devServer (exports_for d p)
     = \<lparr> static = path_resolve d ''public'', historyApiFallback = True, port = 3000,
         open_browser = True, hot = True \<rparr>
   \<and> devServer (exports_for d True) = devServer (exports_for d False)
   \<and> historyApiFallback (devServer (exports_for d p)) = True"
  by (simp add: exports_for_def)

subsection \<open>Determinism\<close>

text \<open>
  Running the module gives the object literal for the directory and the build mode of
  the process, and adds to the journal the operations of the source and nothing else.
\<close>

lemma run_load_config:
  "run_state load_config s =
    (exports_for (dirname s) (isProduction (env s)),
     s\<lparr> journal := journal s @
        [Require ''path'', Require ''html-webpack-plugin'',
         Require ''mini-css-extract-plugin'', Require ''terser-webpack-plugin'',
         Require ''css-minimizer-webpack-plugin'',
         ReadEnv ''NODE_ENV'', ReadDirname, ReadDirname,
         New (TerserPlugin False), New CssMinimizerPlugin]
        @ map New (plugins (exports_for (dirname s) (isProduction (env s)))) \<rparr>)"
  by (cases "isProduction (env s)")
     (simp_all add: load_config_def require_def process_env_get_def get_dirname_def new_def
       perform_def State_Monad.update_def exports_for_def isProduction_def)

text \<open>
  C9: evaluating the module is a pure function of the build mode. Two processes with the
  same build mode and module directory get equal configurations, whatever else their
  environments and journals hold (no hidden state); the evaluation leaves the environment
  and the directory as they were, and what it does is five module loads, one read of
  \<^verbatim>\<open>NODE_ENV\<close>, two reads of the directory and the construction of the plugin
  instances that the configuration holds (no side effects); evaluating it again in the
  resulting process gives the same configuration (idempotence).
\<close>

theorem load_config_pure:
  assumes "isProduction (env s) = isProduction (env s')"
    and "dirname s = dirname s'"
  shows "fst (run_state load_config s) = fst (run_state load_config s')
   \<and> fst (run_state load_config (snd (run_state load_config s)))
     = fst (run_state load_config s)
   \<and> fst (run_state load_config s) = module_exports (dirname s) (env s)
   \<and> env (snd (run_state load_config s)) = env s
   \<and> dirname (snd (run_state load_config s)) = dirname s
   \<and> (\<exists>es. journal (snd (run_state load_config s)) = journal s @ es
        \<and> required_modules es
          = [''path'', ''html-webpack-plugin'', ''mini-css-extract-plugin'',
             ''terser-webpack-plugin'', ''css-minimizer-webpack-plugin'']
        \<and> env_reads es = [''NODE_ENV'']
        \<and> constructed es
          = minimizer (optimization (fst (run_state load_config s)))
            @ plugins (fst (run_state load_config s))
        \<and> length es = (if isProduction (env s) then 12 else 11))"
proof -
  let ?c = "exports_for (dirname s) (isProduction (env s))"
  let ?es = "[Require ''path'', Require ''html-webpack-plugin'',
         Require ''mini-css-extract-plugin'', Require ''terser-webpack-plugin'',
         Require ''css-minimizer-webpack-plugin'',
         ReadEnv ''NODE_ENV'', ReadDirname, ReadDirname,
         New (TerserPlugin False), New CssMinimizerPlugin]
        @ map New (plugins ?c)"
  have same: "fst (run_state load_config s) = fst (run_state load_config s')"
    using assms by (simp add: run_load_config)
  have again: "fst (run_state load_config (snd (run_state load_config s)))
     = fst (run_state load_config s)"
    by (simp add: run_load_config)
  have pure: "fst (run_state load_config s) = module_exports (dirname s) (env s)"
    by (simp add: run_load_config module_exports_def)
  have env_kept: "env (snd (run_state load_config s)) = env s"
    by (simp add: run_load_config)
  have dir_kept: "dirname (snd (run_state load_config s)) = dirname s"
    by (simp add: run_load_config)
  have j: "journal (snd (run_state load_config s)) = journal s @ ?es"
    by (simp add: run_load_config)
  have r: "required_modules ?es
      = [''path'', ''html-webpack-plugin'', ''mini-css-extract-plugin'',
         ''terser-webpack-plugin'', ''css-minimizer-webpack-plugin'']"
    by (cases "isProduction (env s)") (simp_all add: exports_for_def)
  have e: "env_reads ?es = [''NODE_ENV'']"
    by (cases "isProduction (env s)") (simp_all add: exports_for_def)
  have c: "constructed ?es
      = minimizer (optimization (fst (run_state load_config s)))
        @ plugins (fst (run_state load_config s))"
    by (cases "isProduction (env s)") (simp_all add: run_load_config exports_for_def)
  have l: "length ?es = (if isProduction (env s) then 12 else 11)"
    by (simp add: exports_for_def)
  from j r e c l have
    "\<exists>es. journal (snd (run_state load_config s)) = journal s @ es
        \<and> required_modules es
          = [''path'', ''html-webpack-plugin'', ''mini-css-extract-plugin'',
             ''terser-webpack-plugin'', ''css-minimizer-webpack-plugin'']
        \<and> env_reads es = [''NODE_ENV'']
        \<and> constructed es
          = minimizer (optimization (fst (run_state load_config s)))
            @ plugins (fst (run_state load_config s))
        \<and> length es = (if isProduction (env s) then 12 else 11)"
    by blast
  with same again pure env_kept dir_kept show ?thesis by blast
qed

theorem load_config_pure_witness:
  "isProduction (env \<lparr> env = [''NODE_ENV'' \<mapsto> ''production''], dirname = ''/app'',
                       journal = [] \<rparr>)
     = isProduction (env \<lparr> env = [''NODE_ENV'' \<mapsto> ''production'', ''PORT'' \<mapsto> ''8080''],
                           dirname = ''/app'', journal = [Require ''fs''] \<rparr>)
   \<and> dirname \<lparr> env = [''NODE_ENV'' \<mapsto> ''production''], dirname = ''/app'', journal = [] \<rparr>
     = dirname \<lparr> env = [''NODE_ENV'' \<mapsto> ''production'', ''PORT'' \<mapsto> ''8080''],
                 dirname = ''/app'', journal = [Require ''fs''] \<rparr>
   \<and> fst (run_state load_config
        \<lparr> env = [''NODE_ENV'' \<mapsto> ''production''], dirname = ''/app'', journal = [] \<rparr>)
     = fst (run_state load_config
        \<lparr> env = [''NODE_ENV'' \<mapsto> ''production'', ''PORT'' \<mapsto> ''8080''],
          dirname = ''/app'', journal = [Require ''fs''] \<rparr>)
   \<and> env (snd (run_state load_config
        \<lparr> env = [''NODE_ENV'' \<mapsto> ''production''], dirname = ''/app'', journal = [] \<rparr>))
     = [''NODE_ENV'' \<mapsto> ''production'']"
proof -
  let ?s = "\<lparr> env = [''NODE_ENV'' \<mapsto> ''production''], dirname = ''/app'',
              journal = [] \<rparr>"
  let ?s' = "\<lparr> env = [''NODE_ENV'' \<mapsto> ''production'', ''PORT'' \<mapsto> ''8080''],
               dirname = ''/app'', journal = [Require ''fs''] \<rparr>"
  have h1: "isProduction (env ?s) = isProduction (env ?s')"
    by (simp add: isProduction_def)
  have h2: "dirname ?s = dirname ?s'"
    by simp
  have "env ?s = [''NODE_ENV'' \<mapsto> ''production'']"
    by simp
  with h1 h2 load_config_pure [OF h1 h2] show ?thesis
    by metis
qed

end
